theory Spec2Isabelle
  imports Main
begin

section \<open>Go strings as byte lists\<close>

text \<open>
  A Go \<^verbatim>\<open>string\<close> is a sequence of bytes; it is modelled as \<^typ>\<open>string\<close>
  (a list of 8-bit characters). The functions of package \<^verbatim>\<open>strings\<close> that the
  server calls are written out below with the behaviour of the Go standard library.
\<close>

definition slash :: char where
  "slash = CHR ''/''"

definition backslash :: char where
  "backslash = CHR 0x5C"

definition dot :: char where
  "dot = CHR ''.''"

text \<open>\<^verbatim>\<open>strings.HasPrefix(s, prefix)\<close>: \<^verbatim>\<open>len(s) >= len(prefix) && s[:len(prefix)] == prefix\<close>.\<close>

definition HasPrefix :: "string \<Rightarrow> string \<Rightarrow> bool" where
  "HasPrefix s p = (length p \<le> length s \<and> take (length p) s = p)"

text \<open>\<^verbatim>\<open>strings.HasSuffix(s, suffix)\<close>.\<close>

definition HasSuffix :: "string \<Rightarrow> string \<Rightarrow> bool" where
  "HasSuffix s p = (length p \<le> length s \<and> drop (length s - length p) s = p)"

text \<open>\<^verbatim>\<open>strings.Contains(s, substr)\<close>: some suffix of \<open>s\<close> starts with \<open>substr\<close>.\<close>

fun Contains :: "string \<Rightarrow> string \<Rightarrow> bool" where
  "Contains [] sub = (sub = [])"
| "Contains (c # cs) sub = (HasPrefix (c # cs) sub \<or> Contains cs sub)"

text \<open>\<^verbatim>\<open>strings.TrimPrefix\<close> and \<^verbatim>\<open>strings.TrimSuffix\<close>: the string is returned
  unchanged when it does not start (end) with the given piece.\<close>

definition TrimPrefix :: "string \<Rightarrow> string \<Rightarrow> string" where
  "TrimPrefix s p = (if HasPrefix s p then drop (length p) s else s)"

definition TrimSuffix :: "string \<Rightarrow> string \<Rightarrow> string" where
  "TrimSuffix s p = (if HasSuffix s p then take (length s - length p) s else s)"

text \<open>\<^verbatim>\<open>strings.ReplaceAll(s, old, new)\<close> and \<^verbatim>\<open>strings.Count(s, sep)\<close>, for the
  one-byte arguments the server passes.\<close>

definition ReplaceAll :: "string \<Rightarrow> char \<Rightarrow> char \<Rightarrow> string" where
  "ReplaceAll s old new = map (\<lambda>c. if c = old then new else c) s"

definition Count :: "string \<Rightarrow> char \<Rightarrow> nat" where
  "Count s c = length (filter (\<lambda>x. x = c) s)"

text \<open>\<^verbatim>\<open>strings.Split(s, sep)\<close> for a one-byte separator: the pieces between
  the separators, one more piece than there are separators (so \<open>[[]]\<close> for the empty
  string).\<close>

fun Split :: "string \<Rightarrow> char \<Rightarrow> string list" where
  "Split [] sep = [[]]"
| "Split (c # cs) sep =
     (if c = sep then [] # Split cs sep
      else (case Split cs sep of
              [] \<Rightarrow> [[c]]
            | p # ps \<Rightarrow> (c # p) # ps))"

section \<open>Package path: Clean, Join, Dir\<close>

text \<open>
  \<^verbatim>\<open>path.Clean\<close> reads the path left to right and writes into a buffer
  \<open>out\<close>; \<open>dotdot\<close> is the index in the buffer below which a \<^verbatim>\<open>..\<close> element
  cannot remove anything. \<open>backtrack\<close> is the inner loop of the \<^verbatim>\<open>..\<close> case:
  \<^verbatim>\<open>out.w--; for out.w > dotdot && out.index(out.w) != '/' { out.w-- }\<close>,
  started after the first decrement, on the write index \<open>w\<close>.
\<close>

fun backtrack :: "string \<Rightarrow> nat \<Rightarrow> nat \<Rightarrow> nat" where
  "backtrack buf dotdot 0 = 0"
| "backtrack buf dotdot (Suc w) =
     (if Suc w > dotdot \<and> buf ! Suc w \<noteq> slash then backtrack buf dotdot w else Suc w)"

function clean_loop :: "bool \<Rightarrow> string \<Rightarrow> string \<Rightarrow> nat \<Rightarrow> string" where
  "clean_loop rooted [] out dotdot = out"
| "clean_loop rooted (c # cs) out dotdot =
     (if c = slash then clean_loop rooted cs out dotdot
      else if c = dot \<and> (cs = [] \<or> hd cs = slash) then clean_loop rooted cs out dotdot
      else if c = dot \<and> hd cs = dot \<and> (tl cs = [] \<or> hd (tl cs) = slash) then
        (if length out > dotdot then
           clean_loop rooted (tl cs) (take (backtrack out dotdot (length out - 1)) out) dotdot
         else if \<not> rooted then
           (let out' = (if length out > 0 then out @ [slash] else out) @ [dot, dot]
            in clean_loop rooted (tl cs) out' (length out'))
         else clean_loop rooted (tl cs) out dotdot)
      else
        (let out' = (if rooted \<and> length out \<noteq> 1 \<or> \<not> rooted \<and> length out \<noteq> 0
                     then out @ [slash] else out)
         in clean_loop rooted (dropWhile (\<lambda>x. x \<noteq> slash) (c # cs))
              (out' @ takeWhile (\<lambda>x. x \<noteq> slash) (c # cs)) dotdot))"
  by pat_completeness auto
termination
proof (relation "measure (\<lambda>(rooted, rest, out, dotdot). length rest)")
  show "wf (measure (\<lambda>(rooted, rest, out, dotdot). length rest))"
    by simp
next
  fix rooted :: bool and c :: char and cs out :: string and dotdot :: nat and x :: string
  assume "c \<noteq> slash"
  have "length (dropWhile (\<lambda>x. x \<noteq> slash) cs) \<le> length cs"
    by (rule length_dropWhile_le)
  with \<open>c \<noteq> slash\<close>
  show "((rooted, dropWhile (\<lambda>x. x \<noteq> slash) (c # cs),
          x @ takeWhile (\<lambda>x. x \<noteq> slash) (c # cs), dotdot),
         rooted, c # cs, out, dotdot)
        \<in> measure (\<lambda>(rooted, rest, out, dotdot). length rest)"
    by simp
qed auto

definition Clean :: "string \<Rightarrow> string" where
  "Clean p =
     (if p = [] then [dot]
      else
        (let rooted = (hd p = slash);
             out = (if rooted then clean_loop True (tl p) [slash] 1
                    else clean_loop False p [] 0)
         in if out = [] then [dot] else out))"

text \<open>\<^verbatim>\<open>path.Join(elem...)\<close>: the non-empty elements, separated by slashes,
  cleaned; the empty string when every element is empty.\<close>

fun join_buf :: "string \<Rightarrow> string list \<Rightarrow> string" where
  "join_buf buf [] = buf"
| "join_buf buf (e # es) =
     (if length buf > 0 \<or> e \<noteq> []
      then join_buf ((if length buf > 0 then buf @ [slash] else buf) @ e) es
      else join_buf buf es)"

definition Join :: "string list \<Rightarrow> string" where
  "Join elem = (if sum_list (map length elem) = 0 then [] else Clean (join_buf [] elem))"

text \<open>\<^verbatim>\<open>path.Dir(p)\<close>: everything up to and including the last slash, cleaned.\<close>

definition lastSlash_prefix :: "string \<Rightarrow> string" where
  "lastSlash_prefix p = rev (dropWhile (\<lambda>x. x \<noteq> slash) (rev p))"

definition Dir :: "string \<Rightarrow> string" where
  "Dir p = Clean (lastSlash_prefix p)"

section \<open>Path resolution (cmd/main.go)\<close>

datatype error =
    ErrRelativePath
  | ErrNotSupport
  | ErrFileNotFound
  | ErrArchiveRead
  | ErrInvalidRange
  | ErrHandler
  | EOF

definition FixAndCleanPath :: "string \<Rightarrow> string" where
  "FixAndCleanPath path =
     (let path1 = ReplaceAll path backslash slash;
          path2 = (if \<not> HasPrefix path1 [slash] then slash # path1 else path1)
      in Clean path2)"

definition isRelativePath :: "string \<Rightarrow> bool" where
  "isRelativePath reqPath =
     (reqPath = [dot, dot] \<or>
      HasSuffix reqPath [slash, dot, dot] \<or>
      HasPrefix reqPath [dot, dot, slash] \<or>
      Contains reqPath [slash, dot, dot, slash])"

definition JoinBasePath :: "string \<Rightarrow> string \<Rightarrow> error + string" where
  "JoinBasePath basePath reqPath =
     (if isRelativePath reqPath then Inl ErrRelativePath
      else Inr (Join [FixAndCleanPath basePath, FixAndCleanPath reqPath]))"

definition handerReqPath :: "string \<Rightarrow> bool \<Rightarrow> error + string" where
  "handerReqPath path isDir =
     (case JoinBasePath [] path of
        Inl err \<Rightarrow> Inl err
      | Inr reqPath0 \<Rightarrow>
          (let reqPath1 = (if path \<noteq> [slash] then Join [path @ [slash]] else reqPath0);
               reqPath2 = (if isDir \<and> reqPath1 \<noteq> [slash] then reqPath1 @ [slash] else reqPath1)
           in Inr reqPath2))"

section \<open>The archive and its entry stream\<close>

text \<open>
  An entry of the archive (\<^verbatim>\<open>archiver.File\<close>): its name inside the archive, the
  attributes of its \<^verbatim>\<open>FileInfo\<close> that the server reads, and \<^verbatim>\<open>Open\<close>, which
  gives a one-pass reader over the decompressed content or fails (\<open>None\<close>).
  A reader (\<^verbatim>\<open>io.Reader\<close>) is the list of the chunks it still has to deliver: one
  call of \<^verbatim>\<open>Read\<close> never crosses a chunk boundary, as a decompressor hands out
  what it has decoded so far.
\<close>

type_synonym Reader = "string list"

record File =
  NameInArchive :: string
  IsDir :: bool
  Name :: string
  Size :: int
  LinkTarget :: string
  Open :: "Reader option"

text \<open>
  What a \<^verbatim>\<open>FileHandler\<close> tells the walk: \<^verbatim>\<open>nil\<close>, \<^verbatim>\<open>fs.SkipDir\<close>,
  \<^verbatim>\<open>fs.SkipAll\<close> or another error. The handlers of this repository close over a
  pointer to the slice of accepted files; here the slice is passed in and returned.
\<close>

datatype walkSignal = Continue | SkipDir | SkipAll | Fail

type_synonym FileHandler = "File list \<Rightarrow> File \<Rightarrow> File list \<times> walkSignal"

text \<open>
  The format's \<^verbatim>\<open>Extract\<close> (package \<^verbatim>\<open>mholt/archiver/v4\<close>, an external
  collaborator): it walks the entries in archive order, passes over the entries that
  \<^verbatim>\<open>pathsInArchive\<close> does not include and the ones below a skipped directory, and
  calls the handler on the others. \<^verbatim>\<open>fileIsIncluded\<close> includes everything for
  the \<^verbatim>\<open>nil\<close> list, and otherwise a name that equals a list element or lies
  below one. \<^verbatim>\<open>skipList.add\<close> keeps the skipped directories non-intersecting.
\<close>

definition fileIsIncluded :: "string list option \<Rightarrow> string \<Rightarrow> bool" where
  "fileIsIncluded filenameList filename =
     (case filenameList of
        None \<Rightarrow> True
      | Some fns \<Rightarrow>
          list_ex (\<lambda>fn. filename = fn \<or> HasPrefix filename (TrimSuffix fn [slash] @ [slash])) fns)"

fun skipList_scan :: "string \<Rightarrow> string list \<Rightarrow> string list \<Rightarrow> bool \<Rightarrow> string list" where
  "skipList_scan dir kept [] dontAdd = (if dontAdd then kept else kept @ [dir])"
| "skipList_scan dir kept (e # es) dontAdd =
     (let trimmedDir = TrimSuffix dir [slash];
          trimmedElem = TrimSuffix e [slash]
      in if trimmedDir = trimmedElem then kept @ e # es
         else if HasPrefix trimmedDir (trimmedElem @ [slash])
           then skipList_scan dir (kept @ [e]) es True
         else if HasPrefix trimmedElem (trimmedDir @ [slash])
           then skipList_scan dir kept es dontAdd
         else skipList_scan dir (kept @ [e]) es dontAdd)"

definition skipList_add :: "string list \<Rightarrow> string \<Rightarrow> string list" where
  "skipList_add s dir = skipList_scan dir [] s False"

text \<open>The source archive as the walk sees it: the entries it delivers, in order, and
  whether reading the archive then stops with an error.\<close>

record Archive =
  entries :: "File list"
  readError :: bool

fun Extract_loop ::
  "string list option \<Rightarrow> FileHandler \<Rightarrow> bool \<Rightarrow> string list \<Rightarrow> File list \<Rightarrow> File list
     \<Rightarrow> File list \<times> error option" where
  "Extract_loop pathsInArchive handleFile rerr skipDirs files [] =
     (files, if rerr then Some ErrArchiveRead else None)"
| "Extract_loop pathsInArchive handleFile rerr skipDirs files (f # fs) =
     (if \<not> fileIsIncluded pathsInArchive (NameInArchive f)
        then Extract_loop pathsInArchive handleFile rerr skipDirs files fs
      else if fileIsIncluded (Some skipDirs) (NameInArchive f)
        then Extract_loop pathsInArchive handleFile rerr skipDirs files fs
      else
        (case handleFile files f of
           (files', SkipAll) \<Rightarrow> (files', None)
         | (files', SkipDir) \<Rightarrow>
             (let dirPath = (if \<not> IsDir f then Dir (NameInArchive f) @ [slash]
                             else NameInArchive f)
              in Extract_loop pathsInArchive handleFile rerr
                   (skipList_add skipDirs dirPath) files' fs)
         | (files', Fail) \<Rightarrow> (files', Some ErrHandler)
         | (files', Continue) \<Rightarrow>
             Extract_loop pathsInArchive handleFile rerr skipDirs files' fs))"

definition Extract ::
  "Archive \<Rightarrow> string list option \<Rightarrow> FileHandler \<Rightarrow> File list \<Rightarrow> File list \<times> error option" where
  "Extract src pathsInArchive handleFile files =
     Extract_loop pathsInArchive handleFile (readError src) [] files (entries src)"

section \<open>The extractor and its three filters (archiver.go)\<close>

record ArchiverExtractor =
  sourceArchive :: Archive
  fileHandlerFunc :: "FileHandler option"
  pathsInArchive :: "string list option"

definition NoFilter :: FileHandler where
  "NoFilter files f = (files @ [f], Continue)"

definition DirFilter :: "string \<Rightarrow> FileHandler" where
  "DirFilter dir files f =
     (let dirPath = NameInArchive f;
          fileDir = TrimPrefix (slash # dirPath) dir
      in if (Count fileDir slash = 0 \<and> length fileDir > 0) \<or>
            (Count fileDir slash = 1 \<and> HasSuffix fileDir [slash])
         then (files @ [f], Continue)
         else (files, Continue))"

definition FileFilter :: "string \<Rightarrow> FileHandler" where
  "FileFilter filePath files f =
     (if IsDir f then (files, Continue)
      else
        (let fileDir0 = Dir (NameInArchive f);
             fileDir = (if fileDir0 = [dot] then [] else fileDir0)
         in if \<not> HasPrefix filePath (slash # fileDir) then (files, SkipDir)
            else if filePath = slash # NameInArchive f then (files @ [f], Continue)
            else (files, Continue)))"

definition ExtractDirs :: "ArchiverExtractor \<Rightarrow> string \<Rightarrow> File list \<times> error option" where
  "ExtractDirs ae dir =
     (let ff = (case fileHandlerFunc ae of None \<Rightarrow> DirFilter dir | Some h \<Rightarrow> h)
      in Extract (sourceArchive ae) (pathsInArchive ae) ff [])"

definition CascadeExtractDirs :: "ArchiverExtractor \<Rightarrow> string \<Rightarrow> File list \<times> error option" where
  "CascadeExtractDirs ae dir =
     (let ff = (case fileHandlerFunc ae of None \<Rightarrow> NoFilter | Some h \<Rightarrow> h);
          pia = (if dir \<noteq> [slash] then Some [TrimPrefix dir [slash]] else pathsInArchive ae)
      in Extract (sourceArchive ae) pia ff [])"

definition ExtractFile :: "ArchiverExtractor \<Rightarrow> string \<Rightarrow> File option \<times> error option" where
  "ExtractFile ae filePath =
     (let ff = (case fileHandlerFunc ae of None \<Rightarrow> FileFilter filePath | Some h \<Rightarrow> h);
          (files, err) = Extract (sourceArchive ae) (pathsInArchive ae) ff []
      in if length files = 0 then (None, Some ErrFileNotFound)
         else (Some (files ! 0), err))"

text \<open>\<^verbatim>\<open>DetectArchive\<close> and \<^verbatim>\<open>NewArchive\<close> leave the handler and the path list
  unset.\<close>

definition NewArchive :: "Archive \<Rightarrow> ArchiverExtractor" where
  "NewArchive src = \<lparr>sourceArchive = src, fileHandlerFunc = None, pathsInArchive = None\<rparr>"

section \<open>Machine integers\<close>

text \<open>
  Go's \<^verbatim>\<open>int\<close> (on the 64-bit platforms the server is built for) and
  \<^verbatim>\<open>int64\<close> are 64-bit two's complement. Values are kept as \<^typ>\<open>int\<close> and every
  arithmetic result is wrapped by \<open>int64\<close>.
\<close>

definition int64 :: "int \<Rightarrow> int" where
  "int64 x = (x + 2 ^ 63) mod 2 ^ 64 - 2 ^ 63"

datatype panic = SliceBoundsOutOfRange | MakeSliceLenOutOfRange

section \<open>Pagination (cmd/main.go)\<close>

record PageReq =
  Page :: int
  PerPage :: int

text \<open>The slice expression \<^verbatim>\<open>objs[start:end]\<close>: a run-time panic unless
  \<^verbatim>\<open>0 <= start <= end <= cap(objs)\<close>. \<open>pagination\<close> never passes an \<open>end\<close> above
  the length, so the length stands for the capacity.\<close>

definition slice :: "'a list \<Rightarrow> int \<Rightarrow> int \<Rightarrow> panic + 'a list" where
  "slice objs lo hi =
     (if 0 \<le> lo \<and> lo \<le> hi \<and> hi \<le> int (length objs)
      then Inr (take (nat (hi - lo)) (drop (nat lo) objs))
      else Inl SliceBoundsOutOfRange)"

definition pagination :: "'a list \<Rightarrow> PageReq \<Rightarrow> panic + (int \<times> 'a list)" where
  "pagination objs req =
     (let pageIndex = (if Page req \<le> 0 then 1 else Page req);
          pageSize = (if PerPage req \<le> 0 then 10 else PerPage req);
          total = int (length objs);
          start = int64 (int64 (pageIndex - 1) * pageSize)
      in if start > total then Inr (total, [])
         else
           (let end0 = int64 (start + pageSize);
                end1 = (if end0 > total then total else end0)
            in case slice objs start end1 of
                 Inl p \<Rightarrow> Inl p
               | Inr page \<Rightarrow> Inr (total, page)))"

section \<open>Decimal numbers (package strconv)\<close>

definition isDigit :: "char \<Rightarrow> bool" where
  "isDigit c = ((of_char CHR ''0'' :: nat) \<le> of_char c \<and> (of_char c :: nat) \<le> of_char CHR ''9'')"

definition digitVal :: "char \<Rightarrow> nat" where
  "digitVal c = of_char c - of_char CHR ''0''"

definition digitChar :: "nat \<Rightarrow> char" where
  "digitChar d = char_of (of_char CHR ''0'' + d)"

text \<open>\<^verbatim>\<open>strconv.FormatInt(i, 10)\<close>, also what \<^verbatim>\<open>%d\<close> prints.\<close>

fun formatUint :: "nat \<Rightarrow> string" where
  "formatUint n = (if n < 10 then [digitChar n] else formatUint (n div 10) @ [digitChar (n mod 10)])"

definition FormatInt :: "int \<Rightarrow> string" where
  "FormatInt i = (if i < 0 then CHR ''-'' # formatUint (nat (- i)) else formatUint (nat i))"

datatype numError = ErrSyntax | ErrRange

definition maxUint64 :: nat where
  "maxUint64 = 2 ^ 64 - 1"

text \<open>The digit loop of \<^verbatim>\<open>strconv.ParseUint(s, 10, 64)\<close>: \<open>n\<close> is a
  \<^verbatim>\<open>uint64\<close>, the cutoff is \<^verbatim>\<open>maxUint64/10 + 1\<close>, and the sum \<^verbatim>\<open>n + d\<close> wraps.\<close>

fun parseUint_loop :: "nat \<Rightarrow> string \<Rightarrow> nat \<times> numError option" where
  "parseUint_loop n [] = (n, None)"
| "parseUint_loop n (c # cs) =
     (if \<not> isDigit c then (0, Some ErrSyntax)
      else if n \<ge> maxUint64 div 10 + 1 then (maxUint64, Some ErrRange)
      else
        (let n' = n * 10;
             n1 = (n' + digitVal c) mod 2 ^ 64
         in if n1 < n' \<or> n1 > maxUint64 then (maxUint64, Some ErrRange)
            else parseUint_loop n1 cs))"

definition ParseUint :: "string \<Rightarrow> nat \<times> numError option" where
  "ParseUint s = (if s = [] then (0, Some ErrSyntax) else parseUint_loop 0 s)"

text \<open>\<^verbatim>\<open>strconv.ParseInt(s, 10, 64)\<close>: an optional sign, then \<^verbatim>\<open>ParseUint\<close>;
  a syntax error gives 0, a value out of range gives the nearest \<^verbatim>\<open>int64\<close>.\<close>

definition ParseInt :: "string \<Rightarrow> int \<times> numError option" where
  "ParseInt s =
     (if s = [] then (0, Some ErrSyntax)
      else
        (let neg = (hd s = CHR ''-'');
             s1 = (if hd s = CHR ''+'' \<or> hd s = CHR ''-'' then tl s else s);
             (un, err) = ParseUint s1
         in if err = Some ErrSyntax then (0, err)
            else if \<not> neg \<and> un \<ge> 2 ^ 63 then (2 ^ 63 - 1, Some ErrRange)
            else if neg \<and> un > 2 ^ 63 then (- (2 ^ 63), Some ErrRange)
            else (if neg then int64 (- int64 (int un)) else int64 (int un), None)))"

section \<open>White space\<close>

text \<open>
  \<^verbatim>\<open>strings.TrimSpace\<close> removes the leading and trailing runes with Unicode's
  White_Space property. On bytes: the six ASCII white-space characters, and the UTF-8
  encodings of U+0085, U+00A0, U+1680, U+2000 to U+200A, U+2028, U+2029, U+202F,
  U+205F and U+3000.
\<close>

definition asciiSpace :: "char \<Rightarrow> bool" where
  "asciiSpace c = (c \<in> set [CHR 0x09, CHR 0x0A, CHR 0x0B, CHR 0x0C, CHR 0x0D, CHR 0x20])"

definition unicodeSpaces :: "string list" where
  "unicodeSpaces =
     [[CHR 0xC2, CHR 0x85], [CHR 0xC2, CHR 0xA0], [CHR 0xE1, CHR 0x9A, CHR 0x80],
      [CHR 0xE2, CHR 0x80, CHR 0x80], [CHR 0xE2, CHR 0x80, CHR 0x81],
      [CHR 0xE2, CHR 0x80, CHR 0x82], [CHR 0xE2, CHR 0x80, CHR 0x83],
      [CHR 0xE2, CHR 0x80, CHR 0x84], [CHR 0xE2, CHR 0x80, CHR 0x85],
      [CHR 0xE2, CHR 0x80, CHR 0x86], [CHR 0xE2, CHR 0x80, CHR 0x87],
      [CHR 0xE2, CHR 0x80, CHR 0x88], [CHR 0xE2, CHR 0x80, CHR 0x89],
      [CHR 0xE2, CHR 0x80, CHR 0x8A], [CHR 0xE2, CHR 0x80, CHR 0xA8],
      [CHR 0xE2, CHR 0x80, CHR 0xA9], [CHR 0xE2, CHR 0x80, CHR 0xAF],
      [CHR 0xE2, CHR 0x81, CHR 0x9F], [CHR 0xE3, CHR 0x80, CHR 0x80]]"

definition leadingSpace :: "string \<Rightarrow> nat" where
  "leadingSpace s =
     (case s of
        [] \<Rightarrow> 0
      | c # cs \<Rightarrow>
          if asciiSpace c then 1
          else (case find (\<lambda>w. HasPrefix s w) unicodeSpaces of
                  Some w \<Rightarrow> length w
                | None \<Rightarrow> 0))"

definition trailingSpace :: "string \<Rightarrow> nat" where
  "trailingSpace s =
     (if s = [] then 0
      else if asciiSpace (last s) then 1
      else (case find (\<lambda>w. HasSuffix s w) unicodeSpaces of
              Some w \<Rightarrow> length w
            | None \<Rightarrow> 0))"

function trimLeft :: "string \<Rightarrow> string" where
  "trimLeft s = (if leadingSpace s = 0 \<or> s = [] then s else trimLeft (drop (leadingSpace s) s))"
  by pat_completeness auto
termination
  by (relation "measure length") auto

function trimRight :: "string \<Rightarrow> string" where
  "trimRight s =
     (if trailingSpace s = 0 \<or> s = [] then s
      else trimRight (take (length s - trailingSpace s) s))"
  by pat_completeness auto
termination
  by (relation "measure length") auto

definition TrimSpace :: "string \<Rightarrow> string" where
  "TrimSpace s = trimRight (trimLeft s)"

section \<open>The Range header (cmd/main.go)\<close>

definition toInt64 :: "string \<Rightarrow> int" where
  "toInt64 s = fst (ParseInt (TrimSpace s))"

record httpRange =
  Start :: int
  End :: int

text \<open>
  The pattern \<^verbatim>\<open>^\s*bytes\s*=\s*(.*)$\<close>: \<^verbatim>\<open>\s\<close> is one of tab, newline, form
  feed, carriage return and space; \<^verbatim>\<open>.\<close> is any character but newline; \<^verbatim>\<open>$\<close>
  is the end of the text. The result is the submatch, or \<open>None\<close> when the header
  does not match.
\<close>

definition reSpace :: "char \<Rightarrow> bool" where
  "reSpace c = (c \<in> set [CHR 0x09, CHR 0x0A, CHR 0x0C, CHR 0x0D, CHR 0x20])"

definition FindStringSubmatch :: "string \<Rightarrow> string option" where
  "FindStringSubmatch header =
     (let s1 = dropWhile reSpace header
      in if \<not> HasPrefix s1 ''bytes'' then None
         else
           (case dropWhile reSpace (drop 5 s1) of
              [] \<Rightarrow> None
            | c # s2 \<Rightarrow>
                if c \<noteq> CHR ''='' then None
                else
                  (let m = dropWhile reSpace s2
                   in if CHR 0x0A \<in> set m then None else Some m)))"

text \<open>The start and end that one range spec \<^verbatim>\<open>p0-p1\<close> denotes: the suffix form,
  the open-ended form, or both bounds given.\<close>

definition rangeBounds :: "int \<Rightarrow> string \<Rightarrow> string \<Rightarrow> int \<times> int" where
  "rangeBounds totalLength p0 p1 =
     (if p0 = [] then (int64 (int64 (totalLength - 1) - toInt64 p1), int64 (totalLength - 1))
      else if p1 = [] then (toInt64 p0, int64 (totalLength - 1))
      else (toInt64 p0, toInt64 p1))"

fun parseRangeSpecs :: "int \<Rightarrow> string list \<Rightarrow> httpRange list \<Rightarrow> error + httpRange list" where
  "parseRangeSpecs totalLength [] ranges = Inr ranges"
| "parseRangeSpecs totalLength (rangeSpec # rangeSpecs) ranges =
     (let rangeParts = Split rangeSpec CHR ''-''
      in if length rangeParts \<noteq> 2 then Inl ErrInvalidRange
         else
           (let (start, end') = rangeBounds totalLength (rangeParts ! 0) (rangeParts ! 1)
            in if start > end' \<or> start \<ge> totalLength \<or> end' \<ge> totalLength
               then Inl ErrInvalidRange
               else parseRangeSpecs totalLength rangeSpecs
                      (ranges @ [\<lparr>Start = start, End = end'\<rparr>])))"

definition parseRangeHeader :: "string \<Rightarrow> int \<Rightarrow> error + httpRange list" where
  "parseRangeHeader header totalLength =
     (case FindStringSubmatch header of
        None \<Rightarrow> Inl ErrInvalidRange
      | Some m \<Rightarrow> parseRangeSpecs totalLength (Split m CHR '','') [])"

section \<open>Reading a range from the one-pass stream (cmd/main.go)\<close>

text \<open>
  One call of \<^verbatim>\<open>Read\<close> with a buffer of \<open>n\<close> bytes: the bytes delivered, the error,
  and the reader afterwards. At most the rest of the current chunk is delivered; an
  exhausted reader reports \<^verbatim>\<open>io.EOF\<close>.
\<close>

definition Read :: "Reader \<Rightarrow> nat \<Rightarrow> (string \<times> error option) \<times> Reader" where
  "Read rd n =
     (case rd of
        [] \<Rightarrow> (([], Some EOF), [])
      | c # cs \<Rightarrow>
          if length c \<le> n then ((c, None), cs)
          else ((take n c, None), drop n c # cs))"

text \<open>The buffer \<open>p\<close> after \<^verbatim>\<open>Read(p)\<close> has delivered \<open>d\<close>: the bytes of \<open>d\<close>, then
  the rest of \<open>p\<close> as it was.\<close>

definition fill :: "string \<Rightarrow> string \<Rightarrow> string" where
  "fill p d = d @ drop (length d) p"

record MyReadAtReader =
  mr_r :: Reader
  mr_size :: int

definition NewMyReadAtReader :: "Reader \<Rightarrow> int \<Rightarrow> MyReadAtReader" where
  "NewMyReadAtReader rd sz = \<lparr>mr_r = rd, mr_size = sz\<rparr>"

text \<open>
  \<^verbatim>\<open>ReadAt(p, off)\<close> returns the buffer, the results \<^verbatim>\<open>(n, err)\<close> and the reader
  afterwards. The \<^verbatim>\<open>n\<close> and \<^verbatim>\<open>err\<close> that the second \<^verbatim>\<open>if\<close> statement
  declares are local to that statement, so the final \<^verbatim>\<open>return n, err\<close> returns the
  named results, which are still \<^verbatim>\<open>0\<close> and \<^verbatim>\<open>nil\<close>.
\<close>

definition ReadAt ::
  "MyReadAtReader \<Rightarrow> string \<Rightarrow> int \<Rightarrow> (string \<times> int \<times> error option) \<times> MyReadAtReader" where
  "ReadAt m p off =
     (if off < 0 \<or> off \<ge> mr_size m then ((p, 0, Some EOF), m)
      else
        (case Read (mr_r m) (nat off) of
           ((discat, Some err), rd1) \<Rightarrow> ((p, 0, Some err), m\<lparr>mr_r := rd1\<rparr>)
         | ((discat, None), rd1) \<Rightarrow>
             (case Read rd1 (length p) of
                ((d, Some err), rd2) \<Rightarrow> ((fill p d, 0, Some err), m\<lparr>mr_r := rd2\<rparr>)
              | ((d, None), rd2) \<Rightarrow> ((fill p d, 0, None), m\<lparr>mr_r := rd2\<rparr>))))"

section \<open>Responses (cmd/main.go)\<close>

text \<open>
  The part of the \<^verbatim>\<open>gin.Context\<close> that the handlers write: the status line, the
  response headers and the body. \<^verbatim>\<open>c.JSON(200, Resp{...})\<close> writes status 200, sets
  the content type unless one is set already, and writes the envelope.
\<close>

datatype respBody = NoBody | JSONBody int string | Bytes string

record Context =
  Status :: int
  Header :: "string \<rightharpoonup> string"
  Body :: respBody

definition Error :: "error \<Rightarrow> string" where
  "Error e =
     (case e of
        ErrRelativePath \<Rightarrow> ''access using relative path is not allowed''
      | ErrNotSupport \<Rightarrow> ''not support''
      | ErrFileNotFound \<Rightarrow> ''file not found''
      | ErrArchiveRead \<Rightarrow> ''archive read error''
      | ErrInvalidRange \<Rightarrow> ''Invalid Range Header''
      | ErrHandler \<Rightarrow> ''handling file''
      | EOF \<Rightarrow> ''EOF'')"

definition ErrorStrResp :: "Context \<Rightarrow> string \<Rightarrow> int \<Rightarrow> Context" where
  "ErrorStrResp c msg code =
     c\<lparr>Status := 200,
       Header := (if Header c ''Content-Type'' = None
                  then (Header c)(''Content-Type'' \<mapsto> ''application/json; charset=utf-8'')
                  else Header c),
       Body := JSONBody code msg\<rparr>"

definition mimeTable :: "(string \<times> string) list" where
  "mimeTable =
     [(''.zip'', ''application/zip''),
      (''.7z'', ''application/x-7z-compressed''),
      (''.rar'', ''application/x-rar-compressed''),
      (''.tar'', ''application/x-tar''),
      (''.gz'', ''application/gzip''),
      (''.bz2'', ''application/x-bzip2''),
      (''.xz'', ''application/x-xz''),
      (''.lz4'', ''application/x-lz4''),
      (''.zst'', ''application/zstd''),
      (''.mkv'', ''video/x-matroska''),
      (''.mp4'', ''video/mp4''),
      (''.mp3'', ''audio/mpeg''),
      (''.flac'', ''audio/flac''),
      (''.wav'', ''audio/wav''),
      (''.ogg'', ''audio/ogg''),
      (''.jpg'', ''image/jpeg''),
      (''.jpeg'', ''image/jpeg''),
      (''.png'', ''image/png''),
      (''.gif'', ''image/gif''),
      (''.webp'', ''image/webp''),
      (''.pdf'', ''application/pdf'')]"

definition defaultMIME :: "string \<Rightarrow> string" where
  "defaultMIME name =
     (case find (\<lambda>(suffix, mime). HasSuffix name suffix) mimeTable of
        Some (suffix, mime) \<Rightarrow> mime
      | None \<Rightarrow> ''application/octet-stream'')"

text \<open>\<^verbatim>\<open>c.Status(200); io.Copy(c.Writer, frc)\<close>: the whole rest of the stream.\<close>

definition copyAll :: "Context \<Rightarrow> Reader \<Rightarrow> Context" where
  "copyAll c frc = c\<lparr>Status := 200, Body := Bytes (concat frc)\<rparr>"

definition SuccessStreamResp :: "Context \<Rightarrow> string \<Rightarrow> File \<Rightarrow> panic + Context" where
  "SuccessStreamResp c rangeHeader f =
     (case Open f of
        None \<Rightarrow> Inr (ErrorStrResp c (Error ErrNotSupport) 500)
      | Some frc \<Rightarrow>
          (let totalLength = FormatInt (Size f);
               c1 = c\<lparr>Header := (Header c)
                      (''Accept-Ranges'' \<mapsto> ''bytes'',
                       ''Content-Type'' \<mapsto> defaultMIME (Name f),
                       ''Content-Disposition'' \<mapsto> ''attachment; filename='' @ Name f,
                       ''Content-Length'' \<mapsto> totalLength,
                       ''Expires'' \<mapsto> ''0'',
                       ''Cache-Control'' \<mapsto> ''must-revalidate'',
                       ''Pragma'' \<mapsto> ''public'')\<rparr>
           in if rangeHeader \<noteq> [] then
                (case parseRangeHeader rangeHeader (Size f) of
                   Inl err \<Rightarrow> Inr (ErrorStrResp c1 (Error err) 416)
                 | Inr ranges \<Rightarrow>
                     if length ranges = 1 then
                       (let start = Start (ranges ! 0);
                            end' = End (ranges ! 0);
                            len = int64 (int64 (end' - start) + 1)
                        in if len < 0 then Inl MakeSliceLenOutOfRange
                           else
                             (case ReadAt (NewMyReadAtReader frc (Size f))
                                     (replicate (nat len) (CHR 0x00)) start of
                                ((buf, n, Some err), m) \<Rightarrow> Inr (ErrorStrResp c1 (Error err) 500)
                              | ((buf, n, None), m) \<Rightarrow>
                                  Inr (c1\<lparr>Header := (Header c1)
                                            (''Content-Range'' \<mapsto>
                                               ''bytes '' @ FormatInt start @ ''-'' @ FormatInt end'
                                                 @ ''/'' @ totalLength,
                                             ''Content-Length'' \<mapsto> FormatInt len),
                                          Status := 206,
                                          Body := Bytes buf\<rparr>)))
                     else Inr (copyAll c1 frc))
              else Inr (copyAll c1 frc)))"

text \<open>A fresh context: nothing written yet.\<close>

definition newContext :: Context where
  "newContext = \<lparr>Status = 200, Header = Map.empty, Body = NoBody\<rparr>"

text \<open>What the client sees of an outcome: the status line and the body, when the handler
  did not panic.\<close>

definition statusOf :: "panic + Context \<Rightarrow> int option" where
  "statusOf x = (case x of Inl p \<Rightarrow> None | Inr c \<Rightarrow> Some (Status c))"

definition bodyOf :: "panic + Context \<Rightarrow> respBody option" where
  "bodyOf x = (case x of Inl p \<Rightarrow> None | Inr c \<Rightarrow> Some (Body c))"

section \<open>Facts about the string functions\<close>

lemma HasPrefix_iff: "HasPrefix s p \<longleftrightarrow> (\<exists>u. s = p @ u)"
  unfolding HasPrefix_def
  by (metis append_eq_conv_conj append_take_drop_id length_append le_add1)

lemma HasSuffix_iff: "HasSuffix s p \<longleftrightarrow> (\<exists>u. s = u @ p)"
proof
  assume "HasSuffix s p"
  then have "s = take (length s - length p) s @ p"
    unfolding HasSuffix_def by (metis append_take_drop_id)
  then show "\<exists>u. s = u @ p" ..
next
  assume "\<exists>u. s = u @ p"
  then show "HasSuffix s p"
    unfolding HasSuffix_def by auto
qed

lemma Contains_iff: "Contains s sub \<longleftrightarrow> (\<exists>u v. s = u @ sub @ v)"
proof (induction s)
  case Nil
  show ?case by auto
next
  case (Cons c cs)
  show ?case
  proof
    assume "Contains (c # cs) sub"
    then consider "HasPrefix (c # cs) sub" | "Contains cs sub" by auto
    then show "\<exists>u v. c # cs = u @ sub @ v"
    proof cases
      case 1
      then obtain v where "c # cs = sub @ v" using HasPrefix_iff by blast
      then have "c # cs = [] @ sub @ v" by simp
      then show ?thesis by blast
    next
      case 2
      then obtain u v where "cs = u @ sub @ v" using Cons.IH by blast
      then have "c # cs = (c # u) @ sub @ v" by simp
      then show ?thesis by blast
    qed
  next
    assume "\<exists>u v. c # cs = u @ sub @ v"
    then obtain u v where uv: "c # cs = u @ sub @ v" by blast
    show "Contains (c # cs) sub"
    proof (cases u)
      case Nil
      with uv have "HasPrefix (c # cs) sub" using HasPrefix_iff by auto
      then show ?thesis by simp
    next
      case (Cons a u')
      with uv have "cs = u' @ sub @ v" by simp
      then have "Contains cs sub" using Cons.IH by blast
      then show ?thesis by simp
    qed
  qed
qed

section \<open>Path resolution\<close>

lemma isRelativePath_iff:
  "isRelativePath path \<longleftrightarrow>
     (path = ''..'' \<or> (\<exists>u. path = u @ ''/..'') \<or> (\<exists>u. path = ''../'' @ u)
      \<or> (\<exists>u v. path = u @ ''/../'' @ v))"
  by (simp add: isRelativePath_def HasSuffix_iff HasPrefix_iff Contains_iff slash_def dot_def)

lemma handerReqPath_error_iff:
  "handerReqPath path isDir = Inl e \<longleftrightarrow> (e = ErrRelativePath \<and> isRelativePath path)"
  by (auto simp: handerReqPath_def JoinBasePath_def Let_def)

text \<open>
  Claim C1. A raw path that is exactly \<^verbatim>\<open>..\<close>, ends with \<^verbatim>\<open>/..\<close>, starts with
  \<^verbatim>\<open>../\<close> or contains \<^verbatim>\<open>/../\<close> makes \<open>JoinBasePath\<close> (whatever the base path),
  and with it \<open>handerReqPath\<close> (for files and for directories), fail with the
  relative-path error; the test is on the raw path, ahead of every rewriting. Every
  other raw path is resolved: the relative-path error is the only error of resolution.
\<close>

theorem relative_path_denied:
  "((handerReqPath path isDir = Inl ErrRelativePath) =
      (path = ''..'' \<or> (\<exists>u. path = u @ ''/..'') \<or> (\<exists>u. path = ''../'' @ u)
       \<or> (\<exists>u v. path = u @ ''/../'' @ v))) \<and>
   ((JoinBasePath basePath path = Inl ErrRelativePath) =
      (path = ''..'' \<or> (\<exists>u. path = u @ ''/..'') \<or> (\<exists>u. path = ''../'' @ u)
       \<or> (\<exists>u v. path = u @ ''/../'' @ v))) \<and>
   ((\<exists>p. handerReqPath path isDir = Inr p) = (handerReqPath path isDir \<noteq> Inl ErrRelativePath))"
proof -
  have 1: "(handerReqPath path isDir = Inl ErrRelativePath) = isRelativePath path"
    by (simp add: handerReqPath_error_iff)
  have 2: "(JoinBasePath basePath path = Inl ErrRelativePath) = isRelativePath path"
    by (simp add: JoinBasePath_def)
  have 3: "(\<exists>p. handerReqPath path isDir = Inr p) = (handerReqPath path isDir \<noteq> Inl ErrRelativePath)"
  proof (cases "handerReqPath path isDir")
    case (Inl e)
    then have "e = ErrRelativePath"
      using handerReqPath_error_iff by blast
    with Inl show ?thesis by simp
  next
    case (Inr p)
    then show ?thesis by simp
  qed
  show ?thesis
    using 1 2 3 by (simp only: isRelativePath_iff) 
qed

theorem relative_path_denied_witness:
  "handerReqPath ''/a/../b'' True = Inl ErrRelativePath \<and>
   JoinBasePath ''/base'' ''/a/../b'' = Inl ErrRelativePath"
proof -
  have "''/a/../b'' = ''/a'' @ ''/../'' @ ''b''" by simp
  then have "\<exists>u v. ''/a/../b'' = u @ ''/../'' @ v" by blast
  then show ?thesis
    using relative_path_denied [of "''/a/../b''" True "''/base''"] by blast
qed

text \<open>\<open>FixAndCleanPath\<close> alone does what its comment says.\<close>

lemma FixAndCleanPath_example: "FixAndCleanPath (''a//'' @ [backslash] @ ''b'') = ''/a/b''"
  by code_simp

lemma handerReqPath_root: "handerReqPath [] True = Inr ''/''"
  by code_simp

text \<open>
  Claim C7. Path resolution replaces backslashes by slashes and ensures a leading slash,
  so that the raw path \<^verbatim>\<open>a//\b\<close> resolves to \<^verbatim>\<open>/a/b\<close>. The code does not: for every
  raw path other than \<^verbatim>\<open>/\<close>, \<open>handerReqPath\<close> drops the path that \<open>JoinBasePath\<close>
  has normalised and returns the raw path with a slash appended, cleaned; the backslash
  stays and no slash is put in front.
\<close>

theorem handerReqPath_keeps_backslash:
  "handerReqPath (''a//'' @ [backslash] @ ''b'') False = Inr (''a/'' @ [backslash] @ ''b'') \<and>
   handerReqPath (''a//'' @ [backslash] @ ''b'') False \<noteq> Inr ''/a/b''"
  by code_simp

section \<open>Pagination\<close>

lemma int64_id: "- (2 ^ 63) \<le> x \<Longrightarrow> x < 2 ^ 63 \<Longrightarrow> int64 x = x"
  unfolding int64_def by (simp add: mod_pos_pos_trivial)

text \<open>As long as the products stay below \<open>2 ^ 63\<close>, \<open>pagination\<close> is the window the
  specification describes: the defaults, the empty page beyond the end, the clamped
  end, the order of the items kept.\<close>

lemma pagination_no_overflow:
  fixes objs :: "'a list"
  defines "tot \<equiv> int (length objs)"
  assumes pg: "pg = (if Page req \<le> 0 then 1 else Page req)"
    and sz: "sz = (if PerPage req \<le> 0 then 10 else PerPage req)"
    and bound: "pg * sz < 2 ^ 63"
  shows "pagination objs req =
           Inr (tot,
                if (pg - 1) * sz > tot then []
                else take (nat (min ((pg - 1) * sz + sz) tot - (pg - 1) * sz))
                       (drop (nat ((pg - 1) * sz)) objs))"
proof -
  have pg1: "1 \<le> pg" and sz1: "1 \<le> sz"
    using pg sz by auto
  have a: "0 \<le> (pg - 1) * sz"
    using pg1 sz1 by simp
  have le: "(pg - 1) * sz + sz = pg * sz"
    by (simp add: algebra_simps)
  have pgb: "pg - 1 < 2 ^ 63"
  proof -
    have "pg - 1 \<le> (pg - 1) * sz" using pg1 sz1
      by (simp add: mult_le_cancel_left1)
    also have "\<dots> < 2 ^ 63" using le bound sz1 by linarith
    finally show ?thesis .
  qed
  have s1: "int64 (pg - 1) = pg - 1"
    using pg1 pgb by (intro int64_id) auto
  have s2: "int64 ((pg - 1) * sz) = (pg - 1) * sz"
    using a le bound sz1 by (intro int64_id) linarith+
  have s3: "int64 ((pg - 1) * sz + sz) = (pg - 1) * sz + sz"
    using a le bound sz1 by (intro int64_id) linarith+
  show ?thesis
    using a sz1
    by (simp add: pagination_def Let_def pg [symmetric] sz [symmetric] s1 s2 s3
        slice_def tot_def min_def)
qed

lemma pagination_examples:
  "pagination [1, 2, 3, 4, 5, 6, 7, 8, 9, 10, 11, 12, 13, 14, 15, 16, 17, 18, 19, 20, 21, 22,
      23, 24, 25 :: int] \<lparr>Page = 3, PerPage = 10\<rparr> = Inr (25, [21, 22, 23, 24, 25])"
  "pagination [1, 2, 3, 4, 5 :: int] \<lparr>Page = 99, PerPage = 10\<rparr> = Inr (5, [])"
  by (simp_all add: pagination_def Let_def int64_def slice_def)

lemma pagination_page_zero:
  "pagination objs \<lparr>Page = 0, PerPage = n\<rparr> = pagination objs \<lparr>Page = 1, PerPage = n\<rparr>"
  by (simp add: pagination_def)

lemma pagination_overflow_wrong_page:
  "pagination [1, 2, 3, 4, 5 :: int] \<lparr>Page = 4611686018427387905, PerPage = 4\<rparr>
     = Inr (5, [1, 2, 3, 4])"
  by (simp add: pagination_def Let_def int64_def slice_def)

text \<open>
  Claim C9. For every list and all integers \<open>page\<close> and \<open>perPage\<close>, \<open>pagination\<close>
  returns the total and the window \<open>[start, min (start + perPage) total)\<close> with
  \<open>start = (page - 1) * perPage\<close>, and a page out of range is the empty slice, never an
  error. The product is computed in a 64-bit \<^verbatim>\<open>int\<close>: for page \<open>2 ^ 32 + 1\<close> and
  \<open>2 ^ 31\<close> items per page it wraps around to \<open>- 2 ^ 63\<close>, the test \<open>start > total\<close> does
  not fire, and the slice expression panics.
\<close>

theorem pagination_overflow_panics:
  "pagination [1, 2, 3, 4, 5 :: int] \<lparr>Page = 4294967297, PerPage = 2147483648\<rparr>
     = Inl SliceBoundsOutOfRange"
  by (simp add: pagination_def Let_def int64_def slice_def)

end
